theory Spec2Isabelle
  imports Main "HOL-Library.Log_Nat"
begin

section \<open>Go integers, errors and logging\<close>

text \<open>
  Go's \<^verbatim>\<open>int\<close> (on 64-bit targets) and \<^verbatim>\<open>int64\<close> are 64-bit two's complement
  integers whose arithmetic wraps silently. Values are modelled as \<open>int\<close>; every addition
  and multiplication of the source that can leave the range is written with \<open>wrap64\<close>.
  Integer division truncates towards zero (\<open>go_quot\<close>), unlike HOL's \<open>div\<close>;
  the source's divisors are checked for zero where Go would panic.
\<close>

definition wrap64 :: "int \<Rightarrow> int" where
  "wrap64 x = (x + 9223372036854775808) mod 18446744073709551616 - 9223372036854775808"

definition is_int64 :: "int \<Rightarrow> bool" where
  "is_int64 x = (- 9223372036854775808 \<le> x \<and> x \<le> 9223372036854775807)"

definition add64 :: "int \<Rightarrow> int \<Rightarrow> int" where
  "add64 a b = wrap64 (a + b)"

definition mul64 :: "int \<Rightarrow> int \<Rightarrow> int" where
  "mul64 a b = wrap64 (a * b)"

definition go_quot :: "int \<Rightarrow> int \<Rightarrow> int" where
  "go_quot a b = (if (a < 0) = (b < 0) then \<bar>a\<bar> div \<bar>b\<bar> else - (\<bar>a\<bar> div \<bar>b\<bar>))"

definition go_rem :: "int \<Rightarrow> int \<Rightarrow> int" where
  "go_rem a b = a - b * go_quot a b"

text \<open>
  An \<^verbatim>\<open>error\<close> value is either a leaf error with its message, or the result of
  \<^verbatim>\<open>fmt.Errorf("<prefix>: %w", err)\<close>, which keeps the wrapped cause.
\<close>

datatype error = Errno string | Wrap string error

datatype log_entry = Errorf string error | Infof string string

section \<open>Configuration (package config)\<close>

text \<open>
  The \<^verbatim>\<open>Config\<close> struct. The declarations of \<^verbatim>\<open>userConfig\<close>,
  \<^verbatim>\<open>StorageConfig\<close> and \<^verbatim>\<open>deprecatedStorageConfig\<close> are not part of the
  sources at hand: \<open>userConfig\<close> has the three fields \<^verbatim>\<open>Init\<close> assigns, a
  \<open>StorageConfig\<close> is what \<^verbatim>\<open>GetName\<close> and \<^verbatim>\<open>GetType\<close> return, and
  \<^verbatim>\<open>DeprecatedStorage\<close> is \<open>None\<close> for the zero value of its struct.
\<close>

record userConfig =
  ID :: int
  UserStorages :: "string list"
  Blacklist :: bool

record StorageConfig =
  GetName :: string
  GetType :: string

record tempConfig =
  BasePath :: string
  CacheTTL :: int

record logConfig =
  Level :: string
  LogFile :: string
  BackupCount :: nat

record dbConfig =
  Path :: string

record proxyConfig =
  Enable :: bool
  URL :: string

record telegramConfig =
  Token :: string
  AppID :: int
  AppHash :: string
  Proxy :: proxyConfig
  Admins :: "int list option"

record 'd Config =
  Workers :: int
  Retry :: int
  NoCleanCache :: bool
  Users :: "userConfig list"
  Temp :: tempConfig
  Log :: logConfig
  DB :: dbConfig
  Telegram :: telegramConfig
  Storages :: "StorageConfig list"
  DeprecatedStorage :: "'d option"

section \<open>Parallelism and progress cadence (core/utils.go)\<close>

definition getProgressUpdateCount :: "int \<Rightarrow> int" where
  "getProgressUpdateCount fileSize =
     (let updateCount = 5 in
      if fileSize > 1024 * 1024 * 1000 then 50
      else if fileSize > 1024 * 1024 * 500 then 20
      else if fileSize > 1024 * 1024 * 200 then 10
      else updateCount)"

text \<open>
  \<^verbatim>\<open>getTaskThreads\<close> reads \<^verbatim>\<open>config.Cfg.Threads\<close>; the \<^verbatim>\<open>Config\<close> declaration at
  hand has no such field, so the configured maximum is the parameter \<open>cfgThreads\<close>.
\<close>

definition getTaskThreads :: "int \<Rightarrow> int \<Rightarrow> int" where
  "getTaskThreads cfgThreads fileSize =
     (let threads = 1 in
      if fileSize > 1024 * 1024 * 100 then cfgThreads
      else if fileSize > 1024 * 1024 * 50 then go_quot cfgThreads 2
      else threads)"

section \<open>The staging file (TaskLocalFile)\<close>

text \<open>
  The fields of \<^verbatim>\<open>TaskLocalFile\<close> (\<^verbatim>\<open>size\<close> and \<^verbatim>\<open>done\<close> carry a suffix, the
  plain names being taken in Isabelle). The progress callback is a function pointer that
  may be nil: \<open>None\<close>, or \<open>Some cb\<close> where \<open>cb bytesRead contentLength\<close> acts on
  the surroundings \<open>'w\<close> of the file. The underlying \<^verbatim>\<open>os.File\<close> is outside the model:
  each \<open>WriteAt\<close> receives what \<^verbatim>\<open>t.file.WriteAt(p, off)\<close> returned, the number of
  bytes written and the error, if any.
\<close>

record 'w TaskLocalFile =
  size_f :: int
  done_f :: int
  progressCallback :: "(int \<Rightarrow> int \<Rightarrow> 'w \<Rightarrow> 'w) option"
  callbackTimes :: int
  nextCallbackAt :: int
  callbackInterval :: int

definition WriteAt ::
  "'w TaskLocalFile \<Rightarrow> int \<times> error option \<Rightarrow> 'w \<Rightarrow> (int \<times> error option) \<times> 'w TaskLocalFile \<times> 'w" where
  "WriteAt t fileWriteAt w =
     (case fileWriteAt of
        (n, Some err) \<Rightarrow> ((n, Some err), t, w)
      | (n, None) \<Rightarrow>
          (let t1 = t\<lparr>done_f := add64 (done_f t) n\<rparr> in
           case progressCallback t1 of
             None \<Rightarrow> ((n, None), t1, w)
           | Some cb \<Rightarrow>
               if done_f t1 \<ge> nextCallbackAt t1
               then ((n, None),
                     t1\<lparr>nextCallbackAt := add64 (nextCallbackAt t1) (callbackInterval t1)\<rparr>,
                     cb (done_f t1) (size_f t1) w)
               else ((n, None), t1, w)))"

definition NewTaskLocalFile ::
  "error option \<Rightarrow> int \<Rightarrow> (int \<Rightarrow> int \<Rightarrow> 'w \<Rightarrow> 'w) option \<Rightarrow> error + 'w TaskLocalFile" where
  "NewTaskLocalFile osCreate fileSize cb =
     (case osCreate of
        Some err \<Rightarrow> Inl (Wrap ''failed to open file'' err)
      | None \<Rightarrow>
          (let callbackInterval0 = go_quot fileSize 100;
               interval = (if callbackInterval0 = 0 then 1 else callbackInterval0)
           in Inr \<lparr>size_f = fileSize, done_f = 0, progressCallback = cb, callbackTimes = 100,
                   nextCallbackAt = interval, callbackInterval = interval\<rparr>))"

text \<open>
  A download is a sequence of \<open>WriteAt\<close> calls on the same file; \<open>writeAll\<close> runs them
  in order, whatever each returns (the caller of a failed write is free to go on). The
  source takes no lock in \<^verbatim>\<open>WriteAt\<close>; calls that overlap in time are outside this
  model.
\<close>

fun writeAll :: "'w TaskLocalFile \<Rightarrow> (int \<times> error option) list \<Rightarrow> 'w \<Rightarrow> 'w TaskLocalFile \<times> 'w" where
  "writeAll t [] w = (t, w)"
| "writeAll t (r # rs) w = (case WriteAt t r w of (res, t', w') \<Rightarrow> writeAll t' rs w')"

text \<open>A callback that only records its invocations, to count them.\<close>

definition recordCall :: "int \<Rightarrow> int \<Rightarrow> (int \<times> int) list \<Rightarrow> (int \<times> int) list" where
  "recordCall bytesRead contentLength fired = fired @ [(bytesRead, contentLength)]"

definition successful :: "int list \<Rightarrow> (int \<times> error option) list" where
  "successful ns = map (\<lambda>n. (n, None)) ns"

text \<open>
  The invariant of a staging file whose callback records its invocations in \<open>fired\<close>:
  the next threshold is one interval beyond the thresholds already reported, and no
  reported threshold is ahead of the byte counter.
\<close>

definition tracking :: "int \<Rightarrow> (int \<times> int) list TaskLocalFile \<Rightarrow> (int \<times> int) list \<Rightarrow> bool" where
  "tracking i t fired \<longleftrightarrow>
     progressCallback t = Some recordCall \<and> callbackInterval t = i \<and> 1 \<le> i \<and>
     nextCallbackAt t = (int (length fired) + 1) * i \<and> int (length fired) * i \<le> done_f t"

section \<open>Tasks, storage backends and the local surroundings\<close>

text \<open>
  Of \<^verbatim>\<open>types.Task\<close> and its \<^verbatim>\<open>File\<close>, the fields that core/utils.go reads or
  writes.
\<close>

record File =
  Location :: string
  FileSize :: int
  FileName :: string

record Task =
  File :: File
  StorageName :: string
  StoragePath :: string
  ReplyChatID :: int
  ReplyMessageID :: int

text \<open>
  Modelled from the spec: \<^verbatim>\<open>Task.FileName()\<close> (package types, not under src/) is the
  declared display name of the task's remote-file descriptor.
\<close>

definition Task_FileName :: "Task \<Rightarrow> string" where
  "Task_FileName task = FileName (File task)"

text \<open>
  Modelled from the spec: \<^verbatim>\<open>storage.Storage\<close> (package storage, not under src/) is the
  uniform save contract \<^verbatim>\<open>save(context, localPath, destinationPath) -> error\<close>. A
  backend is what the pipeline can observe of it: its answer to the n-th call of
  \<^verbatim>\<open>Save\<close> it receives (\<open>None\<close> for nil), and the calls it has received so far.
\<close>

record Storage =
  responses :: "nat \<Rightarrow> error option"
  calls :: "(string \<times> string) list"

definition Save :: "Storage \<Rightarrow> string \<Rightarrow> string \<Rightarrow> error option \<times> Storage" where
  "Save st localFilePath storagePath =
     (responses st (length (calls st)), st\<lparr>calls := calls st @ [(localFilePath, storagePath)]\<rparr>)"

text \<open>
  The local surroundings of a transfer: the files of the staging directory, the faults the
  operating system will answer with, the pending timed removals and the log.
  \<^verbatim>\<open>os.WriteFile\<close> opens the file (creating or truncating it), writes and closes; when
  the open fails nothing changes, when the write fails a truncated file is left behind.
  \<^verbatim>\<open>os.Remove\<close> fails on a missing file, or as the fault table says.
\<close>

datatype write_fault = OpenFails error | ShortWrite nat error

record world =
  files :: "string \<Rightarrow> string option"
  write_faults :: "string \<Rightarrow> write_fault option"
  remove_faults :: "string \<Rightarrow> error option"
  timers :: "(string \<times> int) list"
  logs :: "log_entry list"

definition logger :: "log_entry \<Rightarrow> world \<Rightarrow> world" where
  "logger entry w = w\<lparr>logs := logs w @ [entry]\<rparr>"

definition os_Remove :: "string \<Rightarrow> world \<Rightarrow> error option \<times> world" where
  "os_Remove name w =
     (case files w name of
        None \<Rightarrow> (Some (Errno ''no such file or directory''), w)
      | Some content \<Rightarrow>
          (case remove_faults w name of
             Some err \<Rightarrow> (Some err, w)
           | None \<Rightarrow> (None, w\<lparr>files := (files w)(name := None)\<rparr>)))"

definition os_WriteFile :: "string \<Rightarrow> string \<Rightarrow> world \<Rightarrow> error option \<times> world" where
  "os_WriteFile name content w =
     (case write_faults w name of
        Some (OpenFails err) \<Rightarrow> (Some err, w)
      | Some (ShortWrite n err) \<Rightarrow> (Some err, w\<lparr>files := (files w)(name \<mapsto> take n content)\<rparr>)
      | None \<Rightarrow> (None, w\<lparr>files := (files w)(name \<mapsto> content)\<rparr>))"

section \<open>Cache reclamation\<close>

text \<open>
  A \<^verbatim>\<open>time.Duration\<close> is an int64 count of nanoseconds, and \<^verbatim>\<open>time.Second\<close> is
  \<open>10\<^sup>9\<close> of them; the product in \<^verbatim>\<open>cleanCacheFile\<close> wraps like any int64 product.
\<close>

definition Second :: int where
  "Second = 1000000000"

text \<open>
  Modelled from the spec: \<^verbatim>\<open>common.RmFileAfter\<close> (package common, not under src/)
  schedules the deletion of the path after the given delay and returns at once; the
  caller does not wait and the file is not touched before the timer fires.
\<close>

definition RmFileAfter :: "string \<Rightarrow> int \<Rightarrow> world \<Rightarrow> world" where
  "RmFileAfter path td w = w\<lparr>timers := timers w @ [(path, td)]\<rparr>"

definition cleanCacheFile :: "'d Config \<Rightarrow> string \<Rightarrow> world \<Rightarrow> world" where
  "cleanCacheFile cfg destPath w =
     (if CacheTTL (Temp cfg) > 0
      then RmFileAfter destPath (mul64 (CacheTTL (Temp cfg)) Second) w
      else (case os_Remove destPath w of
              (Some err, w') \<Rightarrow> logger (Errorf ''Failed to purge file: %s'' err) w'
            | (None, w') \<Rightarrow> w'))"

section \<open>Saving with retries\<close>

text \<open>
  The loop \<^verbatim>\<open>for i := 0; i <= config.Cfg.Retry; i++\<close> of \<^verbatim>\<open>saveFileWithRetry\<close>, as
  a recursion on the counter. The increment runs only while \<open>i < Retry\<close>, so it never
  leaves the range of Go's int.
\<close>

function saveLoop ::
  "'d Config \<Rightarrow> Task \<Rightarrow> string \<Rightarrow> int \<Rightarrow> Storage \<Rightarrow> world \<Rightarrow> error option \<times> Storage \<times> world" where
  "saveLoop cfg task localFilePath i taskStorage w =
     (if i \<le> Retry cfg then
        (case Save taskStorage localFilePath (StoragePath task) of
           (Some err, st') \<Rightarrow>
             if i = Retry cfg then (Some (Wrap ''failed to save file'' err), st', w)
             else saveLoop cfg task localFilePath (i + 1) st'
                    (logger (Errorf ''Failed to save file: %s, retrying...'' err) w)
         | (None, st') \<Rightarrow> (None, st', w))
      else (None, taskStorage, w))"
  by pat_completeness auto
termination
  by (relation "measure (\<lambda>(cfg, task, localFilePath, i, taskStorage, w). nat (Retry cfg + 1 - i))") auto

definition saveFileWithRetry ::
  "'d Config \<Rightarrow> Task \<Rightarrow> Storage \<Rightarrow> string \<Rightarrow> world \<Rightarrow> error option \<times> Storage \<times> world" where
  "saveFileWithRetry cfg task taskStorage localFilePath w = saveLoop cfg task localFilePath 0 taskStorage w"

section \<open>Photos: fetch, stage, save, reclaim\<close>

text \<open>
  What \<^verbatim>\<open>bot.Client.API().UploadGetFile\<close> can answer: an error, or one of the two
  implementations of \<^verbatim>\<open>tg.UploadFileClass\<close>. The remote side is the parameter
  \<open>UploadGetFile\<close>, called with the location, the offset and the limit. The deferred
  \<^verbatim>\<open>cleanCacheFile\<close> is registered after the staging write has succeeded and runs
  after the return value has been computed.
\<close>

datatype upload_result = ApiError error | UploadFile string | UploadFileCDNRedirect

definition processPhoto ::
  "'d Config \<Rightarrow> (string \<Rightarrow> int \<Rightarrow> int \<Rightarrow> upload_result) \<Rightarrow> Task \<Rightarrow> Storage \<Rightarrow> string \<Rightarrow> world
     \<Rightarrow> error option \<times> Storage \<times> world" where
  "processPhoto cfg UploadGetFile task taskStorage cachePath w =
     (case UploadGetFile (Location (File task)) 0 (1024 * 1024) of
        ApiError err \<Rightarrow> (Some (Wrap ''failed to get file'' err), taskStorage, w)
      | UploadFileCDNRedirect \<Rightarrow> (Some (Errno ''unexpected type''), taskStorage, w)
      | UploadFile bytes \<Rightarrow>
          (case os_WriteFile cachePath bytes w of
             (Some err, w1) \<Rightarrow> (Some (Wrap ''failed to write file'' err), taskStorage, w1)
           | (None, w1) \<Rightarrow>
               (case saveFileWithRetry cfg task taskStorage cachePath
                       (logger (Infof ''Downloaded file: %s'' cachePath) w1) of
                  (res, st', w2) \<Rightarrow> (res, st', cleanCacheFile cfg cachePath w2))))"

section \<open>Fixing a missing file extension\<close>

text \<open>
  \<^verbatim>\<open>path.Ext\<close> of Go's standard library scans the path backwards up to the last slash
  and returns the suffix that starts at the last dot of the final element, or the empty
  string. \<open>extFrom\<close> takes the part still to scan, reversed, and the suffix already
  passed.
\<close>

fun extFrom :: "string \<Rightarrow> string \<Rightarrow> string" where
  "extFrom [] suffix = []"
| "extFrom (c # before) suffix =
     (if c = CHR ''/'' then []
      else if c = CHR ''.'' then c # suffix
      else extFrom before (c # suffix))"

definition path_Ext :: "string \<Rightarrow> string" where
  "path_Ext path = extFrom (rev path) []"

text \<open>
  \<^verbatim>\<open>mimetype.DetectFile\<close> belongs to a library: it is the parameter \<open>DetectFile\<close>,
  which reads the staged file and answers with an error or a MIME type that knows its
  extension.
\<close>

record MIME =
  mime_type :: string
  Extension :: string

definition fixTaskFileExt ::
  "(string \<Rightarrow> world \<Rightarrow> error + MIME) \<Rightarrow> Task \<Rightarrow> string \<Rightarrow> world \<Rightarrow> Task \<times> world" where
  "fixTaskFileExt DetectFile task localFilePath w =
     (if path_Ext (Task_FileName task) = []
      then (case DetectFile localFilePath w of
              Inl err \<Rightarrow> (task, logger (Errorf ''Failed to detect mime type: %s'' err) w)
            | Inr mimeType \<Rightarrow>
                (let task1 = task\<lparr>File := (File task)\<lparr>FileName := Task_FileName task @ Extension mimeType\<rparr>\<rparr>;
                     task2 = task1\<lparr>StoragePath := StoragePath task1 @ Extension mimeType\<rparr>
                 in (task2, w)))
      else (task, w))"

section \<open>Float64 arithmetic\<close>

text \<open>
  The progress callback computes a percentage in float64. A finite float64 value is kept
  as a pair \<open>(m, e)\<close> of integers standing for \<open>m * 2\<^sup>e\<close>. Every operation of IEEE 754
  binary64 returns the representable value nearest to the exact result, a tie going to
  the even significand; \<open>round53\<close> does that for a positive quotient \<open>n / d\<close> scaled by
  \<open>2\<^sup>s\<close>: it places the quotient between two powers of two (\<open>floorLog2\<close>), scales it
  to a significand of 53 bits and rounds that to an integer (\<open>roundEven\<close>). The
  operands of the callback are int64 values and the constant 100, so every exponent stays
  within a few hundred of zero, far from the subnormal and the overflow range of the
  format, which are not modelled. A division by zero gives an infinity or a NaN:
  \<open>None\<close>.
\<close>

type_synonym float64 = "int \<times> int"

definition roundEven :: "int \<Rightarrow> int \<Rightarrow> int" where
  "roundEven n d =
     (let q = n div d; r = n mod d
      in if 2 * r < d then q else if d < 2 * r then q + 1 else if even q then q else q + 1)"

definition floorLog2 :: "int \<Rightarrow> int \<Rightarrow> int" where
  "floorLog2 n d =
     (let k = bitlen n - bitlen d
      in if (if 0 \<le> k then d * 2 ^ nat k \<le> n else d \<le> n * 2 ^ nat (- k)) then k else k - 1)"

definition round53 :: "int \<Rightarrow> int \<Rightarrow> int \<Rightarrow> float64" where
  "round53 n d s =
     (let l = floorLog2 n d;
          m = (if l \<le> 52 then roundEven (n * 2 ^ nat (52 - l)) d
               else roundEven n (d * 2 ^ nat (l - 52)))
      in (m, l - 52 + s))"

definition nearest :: "int \<Rightarrow> int \<Rightarrow> int \<Rightarrow> float64" where
  "nearest n d s =
     (if n = 0 then (0, 0)
      else (case round53 \<bar>n\<bar> \<bar>d\<bar> s of (m, e) \<Rightarrow> (if (n < 0) = (d < 0) then m else - m, e)))"

definition float64_of_int :: "int \<Rightarrow> float64" where
  "float64_of_int x = nearest x 1 0"

definition float64_div :: "float64 \<Rightarrow> float64 \<Rightarrow> float64 option" where
  "float64_div x y =
     (case (x, y) of ((m1, e1), (m2, e2)) \<Rightarrow>
        if m2 = 0 then None else Some (nearest m1 m2 (e1 - e2)))"

definition float64_mul :: "float64 \<Rightarrow> float64 \<Rightarrow> float64" where
  "float64_mul x y = (case (x, y) of ((m1, e1), (m2, e2)) \<Rightarrow> nearest (m1 * m2) 1 (e1 + e2))"

text \<open>The value of a float64 with its fraction cut off, as the conversion to int does.\<close>

definition float64_trunc :: "float64 \<Rightarrow> int" where
  "float64_trunc x =
     (case x of (m, e) \<Rightarrow>
        if 0 \<le> e then m * 2 ^ nat e
        else if 0 \<le> m then m div 2 ^ nat (- e) else - ((- m) div 2 ^ nat (- e)))"

section \<open>The progress callback\<close>

text \<open>
  The closure that \<^verbatim>\<open>buildProgressCallback\<close> returns, applied to \<open>bytesRead\<close> and
  \<open>contentLength\<close>. It acts on the messages edited so far; an edit carries the chat,
  the message and the two numbers its text is rendered from. Trace logging is left out.

  \<open>progressPercent\<close> is \<^verbatim>\<open>float64(bytesRead) / float64(contentLength) * 100\<close>: two
  conversions, a division and a multiplication, each rounded. \<open>progressInt\<close> is
  \<^verbatim>\<open>int(progress)\<close>. Go leaves the result of that conversion to the implementation when
  int cannot represent the value (a NaN, an infinity, a magnitude of \<open>2\<^sup>6\<^sup>3\<close> or more);
  only there the model asks its parameter \<open>implementationDependent\<close>.

  The condition is evaluated left to right and stops at the first true disjunct; the last
  one divides twice, and Go panics on an integer division by zero.
\<close>

definition progressPercent :: "int \<Rightarrow> int \<Rightarrow> float64 option" where
  "progressPercent bytesRead contentLength =
     (case float64_div (float64_of_int bytesRead) (float64_of_int contentLength) of
        None \<Rightarrow> None
      | Some ratio \<Rightarrow> Some (float64_mul ratio (float64_of_int 100)))"

definition progressInt :: "(int \<Rightarrow> int \<Rightarrow> int) \<Rightarrow> int \<Rightarrow> int \<Rightarrow> int" where
  "progressInt implementationDependent bytesRead contentLength =
     (case progressPercent bytesRead contentLength of
        None \<Rightarrow> implementationDependent bytesRead contentLength
      | Some progress \<Rightarrow>
          if is_int64 (float64_trunc progress) then float64_trunc progress
          else implementationDependent bytesRead contentLength)"

datatype 'a go_result = Panic string | Returns 'a

record MessagesEditMessageRequest =
  edit_chat :: int
  edit_ID :: int
  edit_bytesRead :: int
  edit_contentLength :: int

definition buildProgressCallback ::
  "(int \<Rightarrow> int \<Rightarrow> int) \<Rightarrow> Task \<Rightarrow> int \<Rightarrow> int \<Rightarrow> int
     \<Rightarrow> MessagesEditMessageRequest list \<Rightarrow> MessagesEditMessageRequest list go_result" where
  "buildProgressCallback implementationDependent task updateCount bytesRead contentLength ctx =
     (let progressInt = progressInt implementationDependent bytesRead contentLength in
      if FileSize (File task) < 1024 * 1024 * 50 then Returns ctx
      else if progressInt = 0 then Returns ctx
      else if updateCount = 0 then Panic ''integer divide by zero''
      else if go_quot 100 updateCount = 0 then Panic ''integer divide by zero''
      else if go_rem progressInt (go_quot 100 updateCount) \<noteq> 0 then Returns ctx
      else Returns (ctx @ [\<lparr>edit_chat = ReplyChatID task, edit_ID = ReplyMessageID task,
                             edit_bytesRead = bytesRead, edit_contentLength = contentLength\<rparr>]))"

text \<open>A transfer invokes the callback on a sequence of byte counts; a panic ends it.\<close>

fun callAll :: "(int \<Rightarrow> int \<Rightarrow> 'c \<Rightarrow> 'c go_result) \<Rightarrow> (int \<times> int) list \<Rightarrow> 'c \<Rightarrow> 'c go_result" where
  "callAll cb [] ctx = Returns ctx"
| "callAll cb ((bytesRead, contentLength) # rest) ctx =
     (case cb bytesRead contentLength ctx of
        Panic msg \<Rightarrow> Panic msg
      | Returns ctx' \<Rightarrow> callAll cb rest ctx')"

section \<open>Loading the configuration\<close>

text \<open>
  \<^verbatim>\<open>Init\<close> talks to viper and to two functions of the package that are not under src/
  (\<^verbatim>\<open>LoadStorageConfigs\<close>, \<^verbatim>\<open>transformDeprecatedStorageConfig\<close>); what they answer is
  the environment of the call. \<^verbatim>\<open>Init\<close> either ends the process with
  \<^verbatim>\<open>os.Exit(1)\<close> or returns an error or nil; the second component is the global
  \<^verbatim>\<open>Cfg\<close> it leaves (\<open>None\<close> for nil, and after an exit). Console output is left out.
\<close>

datatype write_config_result = Written | ConfigFileAlreadyExistsError | WriteFailed error

datatype 'a outcome = Exit int | Returned 'a

record 'd init_env =
  SafeWriteConfigAs :: write_config_result
  ReadInConfig :: "error option"
  Unmarshal :: "error + 'd Config"
  LoadStorageConfigs :: "error + StorageConfig list"
  transformDeprecatedStorageConfig :: "'d Config \<Rightarrow> 'd Config"

fun firstDuplicate :: "string list \<Rightarrow> string list \<Rightarrow> string option" where
  "firstDuplicate storageNames [] = None"
| "firstDuplicate storageNames (name # rest) =
     (if name \<in> set storageNames then Some name else firstDuplicate (name # storageNames) rest)"

definition Init :: "'d init_env \<Rightarrow> error option outcome \<times> 'd Config option" where
  "Init env =
     (case SafeWriteConfigAs env of
        WriteFailed err \<Rightarrow> (Returned (Some (Wrap ''error saving default config'' err)), None)
      | _ \<Rightarrow>
        (case ReadInConfig env of
           Some err \<Rightarrow> (Exit 1, None)
         | None \<Rightarrow>
           (case Unmarshal env of
              Inl err \<Rightarrow> (Exit 1, None)
            | Inr cfg0 \<Rightarrow>
              (let cfg1 = (case Admins (Telegram cfg0) of
                             None \<Rightarrow> cfg0
                           | Some admins \<Rightarrow>
                               cfg0\<lparr>Users := Users cfg0 @
                                      map (\<lambda>admin. \<lparr>ID = admin, UserStorages = [], Blacklist = True\<rparr>) admins\<rparr>)
               in case LoadStorageConfigs env of
                    Inl err \<Rightarrow> (Returned (Some (Wrap ''error loading storage configs'' err)), Some cfg1)
                  | Inr storagesConfig \<Rightarrow>
                    (let cfg2 = cfg1\<lparr>Storages := storagesConfig\<rparr>;
                         cfg3 = (if DeprecatedStorage cfg2 \<noteq> None
                                 then transformDeprecatedStorageConfig env cfg2 else cfg2)
                     in case firstDuplicate [] (map GetName (Storages cfg3)) of
                          Some name \<Rightarrow> (Returned (Some (Errno (''duplicate storage name: '' @ name))), Some cfg3)
                        | None \<Rightarrow>
                            if Workers cfg3 < 1 \<or> Retry cfg3 < 1
                            then (Returned (Some (Errno ''workers and retry must be greater than 0'')), Some cfg3)
                            else (Returned None, Some cfg3))))))"

section \<open>Sample data\<close>

text \<open>A configuration with the defaults of \<^verbatim>\<open>Init\<close>, but for the retry limit and the cache TTL.\<close>

definition sampleConfig :: "int \<Rightarrow> int \<Rightarrow> unit Config" where
  "sampleConfig retry ttl =
     \<lparr>Workers = 3, Retry = retry, NoCleanCache = False, Users = [],
      Temp = \<lparr>BasePath = ''cache/'', CacheTTL = ttl\<rparr>,
      Log = \<lparr>Level = ''INFO'', LogFile = ''logs/saveany.log'', BackupCount = 7\<rparr>,
      DB = \<lparr>Path = ''data/saveany.db''\<rparr>,
      Telegram = \<lparr>Token = ''token'', AppID = 1025907, AppHash = ''452b0359b988148995f22ff0f4229750'',
                  Proxy = \<lparr>Enable = False, URL = ''url''\<rparr>, Admins = None\<rparr>,
      Storages = [], DeprecatedStorage = None\<rparr>"

definition sampleTask :: Task where
  "sampleTask =
     \<lparr>File = \<lparr>Location = ''photo-1'', FileSize = 0, FileName = ''photo''\<rparr>,
      StorageName = ''local'', StoragePath = ''/data/photo'', ReplyChatID = 7, ReplyMessageID = 42\<rparr>"

text \<open>A backend that fails with the given errors, one per call, and then succeeds.\<close>

definition failingStorage :: "error list \<Rightarrow> Storage" where
  "failingStorage errs =
     \<lparr>responses = (\<lambda>n. if n < length errs then Some (errs ! n) else None), calls = []\<rparr>"

definition emptyWorld :: world where
  "emptyWorld = \<lparr>files = (\<lambda>name. None), write_faults = (\<lambda>name. None),
                 remove_faults = (\<lambda>name. None), timers = [], logs = []\<rparr>"

definition sampleEnv :: "int \<Rightarrow> int \<Rightarrow> unit init_env" where
  "sampleEnv workers retry =
     \<lparr>SafeWriteConfigAs = ConfigFileAlreadyExistsError, ReadInConfig = None,
      Unmarshal = Inr ((sampleConfig retry 3600)\<lparr>Workers := workers\<rparr>),
      LoadStorageConfigs = Inr [\<lparr>GetName = ''local'', GetType = ''local''\<rparr>],
      transformDeprecatedStorageConfig = (\<lambda>cfg. cfg)\<rparr>"

section \<open>Properties of the integer operations\<close>

lemma wrap64_id: "is_int64 x \<Longrightarrow> wrap64 x = x"
  by (simp add: wrap64_def is_int64_def)

lemma go_quot_nonneg: "0 \<le> a \<Longrightarrow> 0 < b \<Longrightarrow> go_quot a b = a div b"
  by (simp add: go_quot_def)

section \<open>Results on the progress cadence and the parallelism\<close>

text \<open>
  Claim C6. For every file size, \<open>getProgressUpdateCount\<close> returns 50 above 1000 MiB,
  20 above 500 MiB and up to 1000 MiB, 10 above 200 MiB and up to 500 MiB, and 5
  otherwise (so the bands are open below and closed above); it returns no other value,
  and its result divides 100 exactly, also with Go's remainder.
\<close>

theorem getProgressUpdateCount_bands:
  "(1024 * 1024 * 1000 < s \<longrightarrow> getProgressUpdateCount s = 50) \<and>
   (1024 * 1024 * 500 < s \<and> s \<le> 1024 * 1024 * 1000 \<longrightarrow> getProgressUpdateCount s = 20) \<and>
   (1024 * 1024 * 200 < s \<and> s \<le> 1024 * 1024 * 500 \<longrightarrow> getProgressUpdateCount s = 10) \<and>
   (s \<le> 1024 * 1024 * 200 \<longrightarrow> getProgressUpdateCount s = 5) \<and>
   getProgressUpdateCount s \<in> {5, 10, 20, 50} \<and>
   getProgressUpdateCount s dvd 100 \<and>
   go_rem 100 (getProgressUpdateCount s) = 0"
  by (simp add: getProgressUpdateCount_def go_rem_def go_quot_def)

text \<open>Sizes on both sides of the three comparisons of the code, and a negative size.\<close>

theorem getProgressUpdateCount_bands_witness:
  "getProgressUpdateCount (1024 * 1024 * 1001) = 50 \<and>
   getProgressUpdateCount (1024 * 1024 * 1000) = 20 \<and>
   getProgressUpdateCount (1024 * 1024 * 500) = 10 \<and>
   getProgressUpdateCount (1024 * 1024 * 200) = 5 \<and>
   getProgressUpdateCount (- 7) = 5"
  using getProgressUpdateCount_bands [of "1024 * 1024 * 1001"]
    getProgressUpdateCount_bands [of "1024 * 1024 * 1000"]
    getProgressUpdateCount_bands [of "1024 * 1024 * 500"]
    getProgressUpdateCount_bands [of "1024 * 1024 * 200"]
    getProgressUpdateCount_bands [of "- 7"]
  by simp

text \<open>
  Claim C3, as stated, fails: the source has no clamp. With a configured maximum of 1, a
  file of 60 MiB gets \<open>1 / 2 = 0\<close> threads, fewer than a file of 50 MiB, which gets 1.
\<close>

theorem getTaskThreads_not_clamped:
  "getTaskThreads 1 (1024 * 1024 * 60) = 0 \<and>
   getTaskThreads 1 (1024 * 1024 * 50) = 1 \<and>
   \<not> getTaskThreads 1 (1024 * 1024 * 50) \<le> getTaskThreads 1 (1024 * 1024 * 60) \<and>
   \<not> 1 \<le> getTaskThreads 1 (1024 * 1024 * 60)"
  by (simp add: getTaskThreads_def go_quot_def)

text \<open>
  Claim C3, amended. For every configured maximum of at least 2 and all file sizes
  \<open>s1 \<le> s2\<close>, \<open>getTaskThreads s1 \<le> getTaskThreads s2\<close> and the thread count is at
  least 1; between 50 MiB (exclusive) and 100 MiB (inclusive) the result is the integer
  quotient of the maximum by 2, as it comes, without a clamp.
\<close>

theorem getTaskThreads_mono:
  assumes "2 \<le> cfgThreads" and "s1 \<le> s2"
  shows "getTaskThreads cfgThreads s1 \<le> getTaskThreads cfgThreads s2 \<and>
         1 \<le> getTaskThreads cfgThreads s1 \<and>
         (1024 * 1024 * 50 < s1 \<and> s1 \<le> 1024 * 1024 * 100 \<longrightarrow>
            getTaskThreads cfgThreads s1 = cfgThreads div 2)"
  using assms by (auto simp add: getTaskThreads_def go_quot_def)

theorem getTaskThreads_mono_witness:
  "getTaskThreads 4 (1024 * 1024 * 60) \<le> getTaskThreads 4 (1024 * 1024 * 200) \<and>
   1 \<le> getTaskThreads 4 (1024 * 1024 * 60) \<and> getTaskThreads 4 (1024 * 1024 * 60) = 2"
  using getTaskThreads_mono [of 4 "1024 * 1024 * 60" "1024 * 1024 * 200"]
  by simp

section \<open>Results on the staging file\<close>

lemma WriteAt_failed: "WriteAt t (n, Some err) w = ((n, Some err), t, w)"
  by (simp add: WriteAt_def)

lemma WriteAt_nil_callback:
  "progressCallback t = None \<Longrightarrow>
   WriteAt t r w = (r, (if snd r = None then t\<lparr>done_f := add64 (done_f t) (fst r)\<rparr> else t), w)"
  by (cases r) (auto simp add: WriteAt_def split: option.splits)

lemma writeAll_nil_callback:
  "progressCallback t = None \<Longrightarrow>
   snd (writeAll t rs w) = w \<and> progressCallback (fst (writeAll t rs w)) = None"
  by (induction rs arbitrary: t) (simp_all add: WriteAt_nil_callback)

text \<open>One successful write with the recording callback, away from overflow.\<close>

lemma WriteAt_recorded:
  assumes cb: "progressCallback t = Some recordCall"
    and rng: "is_int64 (done_f t + n)"
      "nextCallbackAt t \<le> done_f t + n \<longrightarrow> is_int64 (nextCallbackAt t + callbackInterval t)"
  shows "WriteAt t (n, None) fired =
     ((n, None),
      (if nextCallbackAt t \<le> done_f t + n
       then t\<lparr>done_f := done_f t + n, nextCallbackAt := nextCallbackAt t + callbackInterval t\<rparr>
       else t\<lparr>done_f := done_f t + n\<rparr>),
      (if nextCallbackAt t \<le> done_f t + n then fired @ [(done_f t + n, size_f t)] else fired))"
  using cb rng by (simp add: WriteAt_def add64_def wrap64_id recordCall_def)

lemma writeAll_tracking:
  assumes "tracking i t fired"
    and "\<forall>n \<in> set ns. 0 \<le> n"
    and "is_int64 (done_f t)" and "is_int64 (done_f t + sum_list ns + i)"
    and "writeAll t (successful ns) fired = (t', fired')"
  shows "tracking i t' fired' \<and> done_f t' = done_f t + sum_list ns \<and>
         length fired' \<le> length fired + length ns \<and>
         (done_f t < nextCallbackAt t \<and> (\<forall>n \<in> set ns. n \<le> i) \<longrightarrow> done_f t' < nextCallbackAt t')"
  using assms
proof (induction ns arbitrary: t fired)
  case Nil
  then show ?case by (simp add: successful_def)
next
  case (Cons n ns)
  have i1: "1 \<le> i" and cb: "progressCallback t = Some recordCall"
    and ci: "callbackInterval t = i"
    and nx: "nextCallbackAt t = (int (length fired) + 1) * i"
    and lo: "int (length fired) * i \<le> done_f t"
    using Cons.prems(1) by (simp_all add: tracking_def)
  have n0: "0 \<le> n" and ns0: "\<forall>m \<in> set ns. 0 \<le> m"
    using Cons.prems(2) by simp_all
  have s0: "0 \<le> sum_list ns"
    using ns0 by (simp add: sum_list_nonneg)
  have d0: "0 \<le> done_f t"
    using lo i1 by (meson mult_nonneg_nonneg of_nat_0_le_iff order_trans zero_le_one)
  have top: "done_f t + n + sum_list ns + i \<le> 9223372036854775807"
    using Cons.prems(4) by (simp add: is_int64_def add.assoc)
  have r1: "is_int64 (done_f t + n)"
    using d0 n0 s0 i1 top by (simp add: is_int64_def)
  have nx0: "0 \<le> nextCallbackAt t"
    using nx i1 by simp
  have r2: "nextCallbackAt t \<le> done_f t + n \<longrightarrow> is_int64 (nextCallbackAt t + callbackInterval t)"
    using nx0 s0 i1 top ci by (simp add: is_int64_def)
  define t1 where "t1 = (if nextCallbackAt t \<le> done_f t + n
       then t\<lparr>done_f := done_f t + n, nextCallbackAt := nextCallbackAt t + callbackInterval t\<rparr>
       else t\<lparr>done_f := done_f t + n\<rparr>)"
  define c1 where "c1 = (if nextCallbackAt t \<le> done_f t + n then fired @ [(done_f t + n, size_f t)] else fired)"
  have step: "WriteAt t (n, None) fired = ((n, None), t1, c1)"
    unfolding t1_def c1_def by (rule WriteAt_recorded [OF cb r1 r2])
  have rest: "writeAll t1 (successful ns) c1 = (t', fired')"
    using Cons.prems(5) step by (simp add: successful_def)
  have d1: "done_f t1 = done_f t + n"
    by (simp add: t1_def)
  have tr1: "tracking i t1 c1"
    using cb ci i1 nx lo n0 by (auto simp add: tracking_def t1_def c1_def algebra_simps)
  have r3: "is_int64 (done_f t1)"
    using r1 d1 by simp
  have r4: "is_int64 (done_f t1 + sum_list ns + i)"
    using Cons.prems(4) d1 by (simp add: add.assoc)
  have IH: "tracking i t' fired' \<and> done_f t' = done_f t1 + sum_list ns \<and>
         length fired' \<le> length c1 + length ns \<and>
         (done_f t1 < nextCallbackAt t1 \<and> (\<forall>n \<in> set ns. n \<le> i) \<longrightarrow> done_f t' < nextCallbackAt t')"
    by (rule Cons.IH [OF tr1 ns0 r3 r4 rest])
  have len1: "length c1 \<le> length fired + 1"
    by (simp add: c1_def)
  have small: "done_f t < nextCallbackAt t \<Longrightarrow> n \<le> i \<Longrightarrow> done_f t1 < nextCallbackAt t1"
    using ci by (auto simp add: t1_def)
  show ?case
    using IH d1 len1 small by (auto simp add: add.assoc)
qed


lemma NewTaskLocalFile_created:
  "0 \<le> S \<Longrightarrow> NewTaskLocalFile None S cb =
     Inr \<lparr>size_f = S, done_f = 0, progressCallback = cb, callbackTimes = 100,
          nextCallbackAt = max (S div 100) 1, callbackInterval = max (S div 100) 1\<rparr>"
  by (auto simp add: NewTaskLocalFile_def go_quot_nonneg Let_def max_def)

lemma count_below_quotient:
  fixes c d i :: int
  assumes "0 < i" and "c * i \<le> d"
  shows "c \<le> d div i"
proof -
  have "(c * i) div i \<le> d div i"
    using assms by (intro zdiv_mono1) simp_all
  then show ?thesis using assms by simp
qed

lemma count_is_quotient:
  fixes c d i :: int
  assumes "0 < i" and "c * i \<le> d" and "d < (c + 1) * i"
  shows "d div i = c"
proof (rule int_div_pos_eq)
  show "d = i * c + (d - c * i)" by (simp add: algebra_simps)
  show "0 \<le> d - c * i" using assms by simp
  show "d - c * i < i" using assms by (simp add: algebra_simps)
qed

text \<open>
  Claim C2, amended. For a staging file created with declared size \<open>S\<close>
  (\<open>0 \<le> S\<close> and \<open>S + interval \<le> 2\<^sup>6\<^sup>3 - 1\<close>, so that no int64 addition wraps) and a non-nil callback, after any
  sequence of successful \<open>WriteAt\<close> fired whose byte counts total \<open>B \<le> S\<close>, the counter
  \<open>done\<close> equals \<open>B\<close>; the callback has fired at most once per write and at most
  \<open>B div interval\<close> times, where \<open>interval = max (S div 100) 1\<close>; and it has fired
  exactly \<open>B div interval\<close> times when no single write is larger than the interval.
\<close>

theorem TaskLocalFile_progress:
  assumes S: "0 \<le> S" "S + max (S div 100) 1 \<le> 9223372036854775807"
    and new: "NewTaskLocalFile None S (Some recordCall) = Inr t0"
    and ns: "\<forall>n \<in> set ns. 0 \<le> n" and B: "sum_list ns \<le> S"
    and run: "writeAll t0 (successful ns) [] = (t, fired)"
  shows "done_f t = sum_list ns \<and>
         length fired \<le> length ns \<and>
         int (length fired) \<le> sum_list ns div max (S div 100) 1 \<and>
         ((\<forall>n \<in> set ns. n \<le> max (S div 100) 1) \<longrightarrow>
            int (length fired) = sum_list ns div max (S div 100) 1)"
proof -
  define i where "i = max (S div 100) 1"
  have i1: "1 \<le> i" by (simp add: i_def)
  have t0: "t0 = \<lparr>size_f = S, done_f = 0, progressCallback = Some recordCall, callbackTimes = 100,
          nextCallbackAt = i, callbackInterval = i\<rparr>"
    using new NewTaskLocalFile_created [OF S(1), of "Some recordCall"] by (simp add: i_def)
  have tr0: "tracking i t0 []"
    using i1 by (simp add: tracking_def t0)
  have top: "sum_list ns + i \<le> 9223372036854775807"
    using B S(2) by (simp add: i_def)
  have s0: "0 \<le> sum_list ns" using ns by (simp add: sum_list_nonneg)
  have r1: "is_int64 (done_f t0)" by (simp add: t0 is_int64_def)
  have r2: "is_int64 (done_f t0 + sum_list ns + i)"
    using top s0 i1 by (simp add: t0 is_int64_def)
  have main: "tracking i t fired \<and> done_f t = done_f t0 + sum_list ns \<and>
         length fired \<le> length ns \<and>
         (done_f t0 < nextCallbackAt t0 \<and> (\<forall>n \<in> set ns. n \<le> i) \<longrightarrow> done_f t < nextCallbackAt t)"
    using writeAll_tracking [OF tr0 ns r1 r2 run] by auto
  have d: "done_f t = sum_list ns" using main by (simp add: t0)
  have lo: "int (length fired) * i \<le> sum_list ns"
    using main d by (simp add: tracking_def)
  have nx: "nextCallbackAt t = (int (length fired) + 1) * i"
    using main by (simp add: tracking_def)
  have le: "int (length fired) \<le> sum_list ns div i"
    using i1 lo by (intro count_below_quotient) simp_all
  have eq: "int (length fired) = sum_list ns div i" if "\<forall>n \<in> set ns. n \<le> i"
  proof -
    have "done_f t < nextCallbackAt t" using main that i1 by (simp add: t0)
    then have "sum_list ns < (int (length fired) + 1) * i" using d nx by simp
    then show ?thesis using count_is_quotient [of i "int (length fired)" "sum_list ns"] i1 lo by simp
  qed
  show ?thesis using d main le eq by (simp add: i_def)
qed

text \<open>Four writes of 5, 5, 10 and 3 bytes into a file of 1000 bytes: 23 bytes, two callbacks.\<close>

theorem TaskLocalFile_progress_witness:
  "done_f (fst (writeAll \<lparr>size_f = 1000, done_f = 0, progressCallback = Some recordCall,
       callbackTimes = 100, nextCallbackAt = 10, callbackInterval = 10\<rparr> (successful [5, 5, 10, 3]) [])) = 23 \<and>
   length (snd (writeAll \<lparr>size_f = 1000, done_f = 0, progressCallback = Some recordCall,
       callbackTimes = 100, nextCallbackAt = 10, callbackInterval = 10\<rparr> (successful [5, 5, 10, 3]) [])) = 2"
  using TaskLocalFile_progress [of 1000
      "\<lparr>size_f = 1000, done_f = 0, progressCallback = Some recordCall,
        callbackTimes = 100, nextCallbackAt = 10, callbackInterval = 10\<rparr>"
      "[5, 5, 10, 3]"
      "fst (writeAll \<lparr>size_f = 1000, done_f = 0, progressCallback = Some recordCall,
       callbackTimes = 100, nextCallbackAt = 10, callbackInterval = 10\<rparr> (successful [5, 5, 10, 3]) [])"
      "snd (writeAll \<lparr>size_f = 1000, done_f = 0, progressCallback = Some recordCall,
       callbackTimes = 100, nextCallbackAt = 10, callbackInterval = 10\<rparr> (successful [5, 5, 10, 3]) [])"]
  by (simp add: NewTaskLocalFile_def go_quot_def)

text \<open>
  Claim C2, as stated, fails on a single write of all the bytes: \<open>WriteAt\<close> fires the
  callback at most once per call. One write of 1000 bytes into a file of 1000 bytes leaves
  \<open>done = 1000\<close> and one callback, not \<open>1000 div 10 = 100\<close>.
\<close>

theorem single_write_fires_once:
  "NewTaskLocalFile None 1000 (Some recordCall) =
     Inr \<lparr>size_f = 1000, done_f = 0, progressCallback = Some recordCall,
          callbackTimes = 100, nextCallbackAt = 10, callbackInterval = 10\<rparr> \<and>
   writeAll \<lparr>size_f = 1000, done_f = 0, progressCallback = Some recordCall,
          callbackTimes = 100, nextCallbackAt = 10, callbackInterval = 10\<rparr> (successful [1000]) [] =
     (\<lparr>size_f = 1000, done_f = 1000, progressCallback = Some recordCall,
          callbackTimes = 100, nextCallbackAt = 20, callbackInterval = 10\<rparr>, [(1000, 1000)]) \<and>
   int (length [(1000 :: int, 1000 :: int)]) \<noteq> 1000 div max (1000 div 100) 1"
  by (simp add: NewTaskLocalFile_def go_quot_def successful_def WriteAt_def add64_def wrap64_def
      recordCall_def)

text \<open>
  Claim C10. When the underlying positional write returns an error, \<open>WriteAt\<close> returns
  that error with the byte count it came with, and the file's progress state (the counter
  \<open>done\<close>, the threshold, every other field) and the callback's surroundings are as
  before: nothing is added, nothing fires. And a file opened with a nil callback never
  invokes one, whatever the sequence of writes and their results.
\<close>

theorem WriteAt_error_keeps_progress:
  "WriteAt t (n, Some err) w = ((n, Some err), t, w) \<and>
   (progressCallback t = None \<longrightarrow>
      snd (writeAll t rs w) = w \<and> progressCallback (fst (writeAll t rs w)) = None)"
  using writeAll_nil_callback [of t rs w] by (simp add: WriteAt_failed)

text \<open>A failed write on a file with a callback, and three writes on a file without one.\<close>

theorem WriteAt_error_keeps_progress_witness:
  "WriteAt \<lparr>size_f = 1000, done_f = 40, progressCallback = Some recordCall,
       callbackTimes = 100, nextCallbackAt = 10, callbackInterval = 10\<rparr> (3, Some (Errno ''EIO'')) [] =
     ((3, Some (Errno ''EIO'')),
      \<lparr>size_f = 1000, done_f = 40, progressCallback = Some recordCall,
       callbackTimes = 100, nextCallbackAt = 10, callbackInterval = 10\<rparr>, []) \<and>
   snd (writeAll \<lparr>size_f = 1000, done_f = 0, progressCallback = None,
       callbackTimes = 100, nextCallbackAt = 10, callbackInterval = 10\<rparr>
       [(600, None), (0, Some (Errno ''EIO'')), (400, None)] ([] :: (int \<times> int) list)) = []"
  using WriteAt_error_keeps_progress [of
      "\<lparr>size_f = 1000, done_f = 40, progressCallback = Some recordCall,
       callbackTimes = 100, nextCallbackAt = 10, callbackInterval = 10\<rparr>" 3 "Errno ''EIO''" "[]" "[]"]
    WriteAt_error_keeps_progress [of
      "\<lparr>size_f = 1000, done_f = 0, progressCallback = None,
       callbackTimes = 100, nextCallbackAt = 10, callbackInterval = 10\<rparr>" 0 "Errno ''EIO''"
      "[] :: (int \<times> int) list" "[(600, None), (0, Some (Errno ''EIO'')), (400, None)]"]
  by simp

section \<open>Results on saving with retries\<close>

declare saveLoop.simps [simp del]

text \<open>
  The loop against a backend that answers the next calls with the errors \<open>errs\<close>, one
  each, and then with success.
\<close>

lemma saveLoop_script:
  assumes "\<forall>j < length errs. responses st (length (calls st) + j) = Some (errs ! j)"
    and "responses st (length (calls st) + length errs) = None"
    and "i \<le> Retry cfg"
  shows "saveLoop cfg task p i st w =
     (if length errs \<le> nat (Retry cfg - i)
      then (None,
            st\<lparr>calls := calls st @ replicate (length errs + 1) (p, StoragePath task)\<rparr>,
            w\<lparr>logs := logs w @ map (Errorf ''Failed to save file: %s, retrying...'') errs\<rparr>)
      else (Some (Wrap ''failed to save file'' (errs ! nat (Retry cfg - i))),
            st\<lparr>calls := calls st @ replicate (nat (Retry cfg - i) + 1) (p, StoragePath task)\<rparr>,
            w\<lparr>logs := logs w @ map (Errorf ''Failed to save file: %s, retrying...'')
                               (take (nat (Retry cfg - i)) errs)\<rparr>))"
  using assms
proof (induction errs arbitrary: i st w)
  case Nil
  then show ?case
    by (subst saveLoop.simps) (simp add: Save_def)
next
  case (Cons e errs)
  have now: "responses st (length (calls st)) = Some e"
    using Cons.prems(1) by force
  show ?case
  proof (cases "i = Retry cfg")
    case True
    then show ?thesis
      using now by (subst saveLoop.simps) (simp add: Save_def)
  next
    case False
    then have lt: "i < Retry cfg" using Cons.prems(3) by simp
    define st1 where "st1 = st\<lparr>calls := calls st @ [(p, StoragePath task)]\<rparr>"
    define w1 where "w1 = logger (Errorf ''Failed to save file: %s, retrying...'' e) w"
    have a1: "\<forall>j < length errs. responses st1 (length (calls st1) + j) = Some (errs ! j)"
    proof (intro allI impI)
      fix j assume "j < length errs"
      then have "responses st (length (calls st) + Suc j) = Some ((e # errs) ! Suc j)"
        using Cons.prems(1) by (metis Suc_less_eq length_Cons)
      then show "responses st1 (length (calls st1) + j) = Some (errs ! j)"
        by (simp add: st1_def)
    qed
    have a2: "responses st1 (length (calls st1) + length errs) = None"
      using Cons.prems(2) by (simp add: st1_def)
    have a3: "i + 1 \<le> Retry cfg" using lt by simp
    have unfold: "saveLoop cfg task p i st w = saveLoop cfg task p (i + 1) st1 w1"
      using now lt by (subst saveLoop.simps) (simp add: Save_def st1_def w1_def)
    define r where "r = nat (Retry cfg - (i + 1))"
    have r: "nat (Retry cfg - i) = Suc r" "nat (Retry cfg - (i + 1)) = r"
      using lt by (simp_all add: r_def)
    show ?thesis
      unfolding unfold Cons.IH [OF a1 a2 a3] r
      by (simp add: st1_def w1_def logger_def replicate_append_same)
  qed
qed


text \<open>
  With a negative retry limit the loop body never runs: no call, and nil. \<open>Init\<close> rejects
  such a limit.
\<close>

lemma saveFileWithRetry_negative_limit:
  "Retry cfg < 0 \<Longrightarrow> saveFileWithRetry cfg task st p w = (None, st, w)"
  unfolding saveFileWithRetry_def by (subst saveLoop.simps) simp

text \<open>
  Claim C1. Let the backend fail on its next \<open>k\<close> calls and succeed on the one after,
  and let the retry limit be a count (\<open>0 \<le> Retry\<close>, which \<open>Init\<close> enforces). When
  \<open>k \<le> Retry\<close>, \<open>saveFileWithRetry\<close> calls \<open>Save\<close> exactly \<open>k + 1\<close> times and returns
  nil. When \<open>Retry < k\<close>, it calls \<open>Save\<close> exactly \<open>Retry + 1\<close> times and returns the
  error of the last attempt, wrapped. In both cases every call passes the staged path and
  the task's storage path, and the failures before the last attempt are logged, one entry
  each, and nothing else is.
\<close>

theorem saveFileWithRetry_attempts:
  assumes retry: "0 \<le> Retry cfg"
    and fails: "\<forall>j < k. responses st (length (calls st) + j) \<noteq> None"
    and succeeds: "responses st (length (calls st) + k) = None"
    and run: "saveFileWithRetry cfg task st p w = (res, st', w')"
  shows "(int k \<le> Retry cfg \<longrightarrow>
            res = None \<and>
            calls st' = calls st @ replicate (k + 1) (p, StoragePath task) \<and>
            length (calls st') = length (calls st) + (k + 1) \<and>
            logs w' = logs w @ map (\<lambda>j. Errorf ''Failed to save file: %s, retrying...''
                                       (the (responses st (length (calls st) + j)))) [0..<k]) \<and>
         (Retry cfg < int k \<longrightarrow>
            res = Some (Wrap ''failed to save file''
                         (the (responses st (length (calls st) + nat (Retry cfg))))) \<and>
            calls st' = calls st @ replicate (nat (Retry cfg) + 1) (p, StoragePath task) \<and>
            length (calls st') = length (calls st) + (nat (Retry cfg) + 1) \<and>
            logs w' = logs w @ map (\<lambda>j. Errorf ''Failed to save file: %s, retrying...''
                                       (the (responses st (length (calls st) + j)))) [0..<nat (Retry cfg)])"
proof -
  define errs where "errs = map (\<lambda>j. the (responses st (length (calls st) + j))) [0..<k]"
  have len: "length errs = k" by (simp add: errs_def)
  have a1: "\<forall>j < length errs. responses st (length (calls st) + j) = Some (errs ! j)"
    using fails by (auto simp add: errs_def)
  have a2: "responses st (length (calls st) + length errs) = None"
    using succeeds len by simp
  have tk: "take n errs = map (\<lambda>j. the (responses st (length (calls st) + j))) [0..<n]" if "n \<le> k" for n
    using that by (simp add: errs_def take_map min_def)
  have nth: "errs ! n = the (responses st (length (calls st) + n))" if "n < k" for n
    using that by (simp add: errs_def)
  have script: "(res, st', w') =
     (if length errs \<le> nat (Retry cfg)
      then (None,
            st\<lparr>calls := calls st @ replicate (length errs + 1) (p, StoragePath task)\<rparr>,
            w\<lparr>logs := logs w @ map (Errorf ''Failed to save file: %s, retrying...'') errs\<rparr>)
      else (Some (Wrap ''failed to save file'' (errs ! nat (Retry cfg))),
            st\<lparr>calls := calls st @ replicate (nat (Retry cfg) + 1) (p, StoragePath task)\<rparr>,
            w\<lparr>logs := logs w @ map (Errorf ''Failed to save file: %s, retrying...'')
                               (take (nat (Retry cfg)) errs)\<rparr>))"
    using saveLoop_script [OF a1 a2 retry, of task p w] run
    by (auto simp add: saveFileWithRetry_def split: if_splits)
  show ?thesis
  proof (cases "int k \<le> Retry cfg")
    case True
    then have le: "length errs \<le> nat (Retry cfg)" using len by simp
    have "res = None"
      and "st' = st\<lparr>calls := calls st @ replicate (length errs + 1) (p, StoragePath task)\<rparr>"
      and "w' = w\<lparr>logs := logs w @ map (Errorf ''Failed to save file: %s, retrying...'') errs\<rparr>"
      using script le by simp_all
    then show ?thesis
      using True by (simp add: len) (simp add: errs_def)
  next
    case False
    then have lt: "nat (Retry cfg) < k" using retry by simp
    then have nle: "\<not> length errs \<le> nat (Retry cfg)" using len by simp
    have "res = Some (Wrap ''failed to save file'' (errs ! nat (Retry cfg)))"
      and "st' = st\<lparr>calls := calls st @ replicate (nat (Retry cfg) + 1) (p, StoragePath task)\<rparr>"
      and "w' = w\<lparr>logs := logs w @ map (Errorf ''Failed to save file: %s, retrying...'')
                               (take (nat (Retry cfg)) errs)\<rparr>"
      using script nle by simp_all
    then show ?thesis
      using False nth [OF lt] tk [of "nat (Retry cfg)"] lt by simp
  qed
qed

text \<open>A backend failing twice: with three retries the third call succeeds, with one retry
  the second failure is returned.\<close>

theorem saveFileWithRetry_attempts_witness:
  "fst (saveFileWithRetry (sampleConfig 3 0) sampleTask (failingStorage [Errno ''busy'', Errno ''quota'']) ''cache/photo'' emptyWorld) = None \<and>
   length (calls (fst (snd (saveFileWithRetry (sampleConfig 3 0) sampleTask (failingStorage [Errno ''busy'', Errno ''quota'']) ''cache/photo'' emptyWorld)))) = 3 \<and>
   fst (saveFileWithRetry (sampleConfig 1 0) sampleTask (failingStorage [Errno ''busy'', Errno ''quota'']) ''cache/photo'' emptyWorld) =
     Some (Wrap ''failed to save file'' (Errno ''quota'')) \<and>
   length (calls (fst (snd (saveFileWithRetry (sampleConfig 1 0) sampleTask (failingStorage [Errno ''busy'', Errno ''quota'']) ''cache/photo'' emptyWorld)))) = 2"
  using saveFileWithRetry_attempts [of "sampleConfig 3 0" 2 "failingStorage [Errno ''busy'', Errno ''quota'']"
      sampleTask "''cache/photo''" emptyWorld
      "fst (saveFileWithRetry (sampleConfig 3 0) sampleTask (failingStorage [Errno ''busy'', Errno ''quota'']) ''cache/photo'' emptyWorld)"
      "fst (snd (saveFileWithRetry (sampleConfig 3 0) sampleTask (failingStorage [Errno ''busy'', Errno ''quota'']) ''cache/photo'' emptyWorld))"
      "snd (snd (saveFileWithRetry (sampleConfig 3 0) sampleTask (failingStorage [Errno ''busy'', Errno ''quota'']) ''cache/photo'' emptyWorld))"]
    saveFileWithRetry_attempts [of "sampleConfig 1 0" 2 "failingStorage [Errno ''busy'', Errno ''quota'']"
      sampleTask "''cache/photo''" emptyWorld
      "fst (saveFileWithRetry (sampleConfig 1 0) sampleTask (failingStorage [Errno ''busy'', Errno ''quota'']) ''cache/photo'' emptyWorld)"
      "fst (snd (saveFileWithRetry (sampleConfig 1 0) sampleTask (failingStorage [Errno ''busy'', Errno ''quota'']) ''cache/photo'' emptyWorld))"
      "snd (snd (saveFileWithRetry (sampleConfig 1 0) sampleTask (failingStorage [Errno ''busy'', Errno ''quota'']) ''cache/photo'' emptyWorld))"]
  by (simp add: sampleConfig_def failingStorage_def less_Suc_eq numeral_2_eq_2)

section \<open>Results on cache reclamation\<close>

lemma seconds_fit:
  "0 < ttl \<Longrightarrow> ttl \<le> 9223372036 \<Longrightarrow> mul64 ttl Second = ttl * 1000000000"
  by (simp add: mul64_def Second_def wrap64_id is_int64_def)

lemma os_Remove_cases:
  "os_Remove name w =
     (if files w name = None then (Some (Errno ''no such file or directory''), w)
      else if remove_faults w name \<noteq> None then (remove_faults w name, w)
      else (None, w\<lparr>files := (files w)(name := None)\<rparr>))"
  by (auto simp add: os_Remove_def split: option.splits)

text \<open>
  Claim C7. With a positive cache TTL, \<open>cleanCacheFile\<close> hands the staged path to
  \<open>RmFileAfter\<close> with the delay \<^verbatim>\<open>time.Duration(TTL) * time.Second\<close> and returns with
  the files and the log as they were: the deletion is scheduled, not done. The delay is
  exactly TTL seconds for every TTL whose nanoseconds fit an int64 (up to 9223372036
  seconds, some 292 years). With a TTL of zero or less it removes the path before
  returning: when \<^verbatim>\<open>os.Remove\<close> succeeds the file is gone, and when it fails the only
  effect is one log entry. The function has no result, so no failure reaches the caller.
\<close>

theorem cleanCacheFile_reclaims:
  "(0 < CacheTTL (Temp cfg) \<longrightarrow>
      cleanCacheFile cfg destPath w =
        w\<lparr>timers := timers w @ [(destPath, mul64 (CacheTTL (Temp cfg)) Second)]\<rparr> \<and>
      files (cleanCacheFile cfg destPath w) = files w \<and>
      logs (cleanCacheFile cfg destPath w) = logs w \<and>
      (CacheTTL (Temp cfg) \<le> 9223372036 \<longrightarrow>
         mul64 (CacheTTL (Temp cfg)) Second = CacheTTL (Temp cfg) * 1000000000)) \<and>
   (CacheTTL (Temp cfg) \<le> 0 \<and> fst (os_Remove destPath w) = None \<longrightarrow>
      cleanCacheFile cfg destPath w = w\<lparr>files := (files w)(destPath := None)\<rparr> \<and>
      files (cleanCacheFile cfg destPath w) destPath = None \<and>
      timers (cleanCacheFile cfg destPath w) = timers w \<and>
      logs (cleanCacheFile cfg destPath w) = logs w) \<and>
   (CacheTTL (Temp cfg) \<le> 0 \<and> fst (os_Remove destPath w) = Some err \<longrightarrow>
      cleanCacheFile cfg destPath w =
        w\<lparr>logs := logs w @ [Errorf ''Failed to purge file: %s'' err]\<rparr>)"
  by (auto simp add: cleanCacheFile_def RmFileAfter_def seconds_fit os_Remove_cases logger_def)

text \<open>A TTL of one hour, a TTL of zero on an existing file, and a TTL of zero on a missing one.\<close>

theorem cleanCacheFile_reclaims_witness:
  "timers (cleanCacheFile (sampleConfig 3 3600) ''cache/photo''
      (emptyWorld\<lparr>files := [''cache/photo'' \<mapsto> ''abc'']\<rparr>)) = [(''cache/photo'', 3600000000000)] \<and>
   files (cleanCacheFile (sampleConfig 3 3600) ''cache/photo''
      (emptyWorld\<lparr>files := [''cache/photo'' \<mapsto> ''abc'']\<rparr>)) ''cache/photo'' = Some ''abc'' \<and>
   files (cleanCacheFile (sampleConfig 3 0) ''cache/photo''
      (emptyWorld\<lparr>files := [''cache/photo'' \<mapsto> ''abc'']\<rparr>)) ''cache/photo'' = None \<and>
   logs (cleanCacheFile (sampleConfig 3 0) ''cache/photo'' emptyWorld) =
      [Errorf ''Failed to purge file: %s'' (Errno ''no such file or directory'')]"
  using cleanCacheFile_reclaims [of "sampleConfig 3 3600" "''cache/photo''"
      "emptyWorld\<lparr>files := [''cache/photo'' \<mapsto> ''abc'']\<rparr>" "Errno ''x''"]
    cleanCacheFile_reclaims [of "sampleConfig 3 0" "''cache/photo''"
      "emptyWorld\<lparr>files := [''cache/photo'' \<mapsto> ''abc'']\<rparr>" "Errno ''x''"]
    cleanCacheFile_reclaims [of "sampleConfig 3 0" "''cache/photo''" emptyWorld
      "Errno ''no such file or directory''"]
  by (simp add: sampleConfig_def emptyWorld_def os_Remove_def)

section \<open>Results on photos\<close>

text \<open>
  Claim C5, amended. On every path on which the staging write has succeeded,
  \<open>processPhoto\<close> runs \<open>cleanCacheFile\<close> on the staged path exactly once, after the
  save attempts, and returns what \<open>saveFileWithRetry\<close> returned, success or failure.
  When the remote fetch returns an error or a result of an unexpected type, nothing has
  been staged: \<open>cleanCacheFile\<close> is not invoked, no save is attempted, and the error is
  returned with the surroundings as they were.
\<close>

theorem processPhoto_reclaims_after_staging:
  "(UploadGetFile (Location (File task)) 0 (1024 * 1024) = UploadFile bytes \<and>
    os_WriteFile cachePath bytes w = (None, w1) \<and>
    saveFileWithRetry cfg task taskStorage cachePath (logger (Infof ''Downloaded file: %s'' cachePath) w1)
      = (res, st', w2) \<longrightarrow>
      processPhoto cfg UploadGetFile task taskStorage cachePath w =
        (res, st', cleanCacheFile cfg cachePath w2)) \<and>
   (UploadGetFile (Location (File task)) 0 (1024 * 1024) = ApiError err \<longrightarrow>
      processPhoto cfg UploadGetFile task taskStorage cachePath w =
        (Some (Wrap ''failed to get file'' err), taskStorage, w)) \<and>
   (UploadGetFile (Location (File task)) 0 (1024 * 1024) = UploadFileCDNRedirect \<longrightarrow>
      processPhoto cfg UploadGetFile task taskStorage cachePath w =
        (Some (Errno ''unexpected type''), taskStorage, w))"
  by (simp add: processPhoto_def)

text \<open>
  A photo staged and saved at the second attempt, then reclaimed at once (TTL 0); and a
  fetch that times out.
\<close>

theorem processPhoto_reclaims_after_staging_witness:
  "fst (processPhoto (sampleConfig 3 0) (\<lambda>location offset limit. UploadFile ''abcdef'') sampleTask
          (failingStorage [Errno ''busy'']) ''cache/photo'' emptyWorld) = None \<and>
   length (calls (fst (snd (processPhoto (sampleConfig 3 0) (\<lambda>location offset limit. UploadFile ''abcdef'') sampleTask
          (failingStorage [Errno ''busy'']) ''cache/photo'' emptyWorld)))) = 2 \<and>
   files (snd (snd (processPhoto (sampleConfig 3 0) (\<lambda>location offset limit. UploadFile ''abcdef'') sampleTask
          (failingStorage [Errno ''busy'']) ''cache/photo'' emptyWorld))) ''cache/photo'' = None \<and>
   processPhoto (sampleConfig 3 0) (\<lambda>location offset limit. ApiError (Errno ''timeout'')) sampleTask
          (failingStorage []) ''cache/photo'' emptyWorld =
     (Some (Wrap ''failed to get file'' (Errno ''timeout'')), failingStorage [], emptyWorld)"
  using processPhoto_reclaims_after_staging [of "\<lambda>location offset limit. UploadFile ''abcdef''" sampleTask
      "''abcdef''" "''cache/photo''" emptyWorld "emptyWorld\<lparr>files := [''cache/photo'' \<mapsto> ''abcdef'']\<rparr>"
      "sampleConfig 3 0" "failingStorage [Errno ''busy'']"
      None
      "(failingStorage [Errno ''busy''])\<lparr>calls := [(''cache/photo'', ''/data/photo''), (''cache/photo'', ''/data/photo'')]\<rparr>"
      "emptyWorld\<lparr>files := [''cache/photo'' \<mapsto> ''abcdef''],
         logs := [Infof ''Downloaded file: %s'' ''cache/photo'',
                  Errorf ''Failed to save file: %s, retrying...'' (Errno ''busy'')]\<rparr>"
      "Errno ''timeout''"]
    processPhoto_reclaims_after_staging [of "\<lambda>location offset limit. ApiError (Errno ''timeout'')" sampleTask
      "''abcdef''" "''cache/photo''" emptyWorld emptyWorld
      "sampleConfig 3 0" "failingStorage []" None "failingStorage []" emptyWorld "Errno ''timeout''"]
  by (simp add: saveFileWithRetry_def saveLoop.simps Save_def sampleConfig_def sampleTask_def
      failingStorage_def emptyWorld_def os_WriteFile_def logger_def cleanCacheFile_def os_Remove_def)

text \<open>
  Claim C5, as stated, fails: the deferred \<open>cleanCacheFile\<close> is registered only after
  the staging write has succeeded. When the write fails after three bytes, \<open>processPhoto\<close>
  returns the error and the truncated staging file is still there (with TTL 0 a
  reclamation would have removed it); when the fetch fails, no removal is scheduled
  (with a TTL of an hour a reclamation would have added a timer).
\<close>

theorem processPhoto_skips_reclamation:
  "processPhoto (sampleConfig 3 0) (\<lambda>location offset limit. UploadFile ''abcdef'') sampleTask
      (failingStorage []) ''cache/photo''
      (emptyWorld\<lparr>write_faults := [''cache/photo'' \<mapsto> ShortWrite 3 (Errno ''no space left on device'')]\<rparr>) =
     (Some (Wrap ''failed to write file'' (Errno ''no space left on device'')),
      failingStorage [],
      emptyWorld\<lparr>write_faults := [''cache/photo'' \<mapsto> ShortWrite 3 (Errno ''no space left on device'')],
                 files := [''cache/photo'' \<mapsto> ''abc'']\<rparr>) \<and>
   files (cleanCacheFile (sampleConfig 3 0) ''cache/photo''
      (emptyWorld\<lparr>write_faults := [''cache/photo'' \<mapsto> ShortWrite 3 (Errno ''no space left on device'')],
                 files := [''cache/photo'' \<mapsto> ''abc'']\<rparr>)) ''cache/photo'' = None \<and>
   processPhoto (sampleConfig 3 3600) (\<lambda>location offset limit. ApiError (Errno ''timeout'')) sampleTask
      (failingStorage []) ''cache/photo'' emptyWorld =
     (Some (Wrap ''failed to get file'' (Errno ''timeout'')), failingStorage [], emptyWorld) \<and>
   timers (cleanCacheFile (sampleConfig 3 3600) ''cache/photo'' emptyWorld) \<noteq> timers emptyWorld"
  by (simp add: processPhoto_def os_WriteFile_def emptyWorld_def cleanCacheFile_def os_Remove_def
      sampleConfig_def RmFileAfter_def)

section \<open>Results on fixing a missing file extension\<close>

text \<open>
  Claim C8. When the task's display name has no extension and MIME detection on the
  staged file succeeds, \<open>fixTaskFileExt\<close> appends the detected extension to the task's
  file name and to its storage path, and changes nothing else. When detection fails, the
  task is unchanged and the failure is logged. When the name has an extension, the task
  and the surroundings are unchanged. The function has no result, so it returns no error.
\<close>

theorem fixTaskFileExt_frame:
  "(path_Ext (Task_FileName task) = [] \<and> DetectFile localFilePath w = Inr mimeType \<longrightarrow>
      fixTaskFileExt DetectFile task localFilePath w =
        (task\<lparr>File := (File task)\<lparr>FileName := FileName (File task) @ Extension mimeType\<rparr>,
              StoragePath := StoragePath task @ Extension mimeType\<rparr>, w)) \<and>
   (path_Ext (Task_FileName task) = [] \<and> DetectFile localFilePath w = Inl err \<longrightarrow>
      fixTaskFileExt DetectFile task localFilePath w =
        (task, logger (Errorf ''Failed to detect mime type: %s'' err) w)) \<and>
   (path_Ext (Task_FileName task) \<noteq> [] \<longrightarrow>
      fixTaskFileExt DetectFile task localFilePath w = (task, w))"
  by (simp add: fixTaskFileExt_def Task_FileName_def Let_def)

text \<open>A name without extension with and without a detected type, and a name with one.\<close>

theorem fixTaskFileExt_frame_witness:
  "fixTaskFileExt (\<lambda>name w. Inr \<lparr>mime_type = ''image/jpeg'', Extension = ''.jpg''\<rparr>) sampleTask
      ''cache/photo'' emptyWorld =
     (\<lparr>File = \<lparr>Location = ''photo-1'', FileSize = 0, FileName = ''photo.jpg''\<rparr>,
       StorageName = ''local'', StoragePath = ''/data/photo.jpg'', ReplyChatID = 7, ReplyMessageID = 42\<rparr>,
      emptyWorld) \<and>
   fixTaskFileExt (\<lambda>name w. Inl (Errno ''unreadable'')) sampleTask ''cache/photo'' emptyWorld =
     (sampleTask, logger (Errorf ''Failed to detect mime type: %s'' (Errno ''unreadable'')) emptyWorld) \<and>
   fixTaskFileExt (\<lambda>name w. Inr \<lparr>mime_type = ''image/jpeg'', Extension = ''.jpg''\<rparr>)
      (sampleTask\<lparr>File := \<lparr>Location = ''photo-1'', FileSize = 0, FileName = ''dir.d/photo.png''\<rparr>\<rparr>)
      ''cache/photo'' emptyWorld =
     (sampleTask\<lparr>File := \<lparr>Location = ''photo-1'', FileSize = 0, FileName = ''dir.d/photo.png''\<rparr>\<rparr>, emptyWorld)"
  using fixTaskFileExt_frame [of sampleTask "\<lambda>name w. Inr \<lparr>mime_type = ''image/jpeg'', Extension = ''.jpg''\<rparr>"
      "''cache/photo''" emptyWorld "\<lparr>mime_type = ''image/jpeg'', Extension = ''.jpg''\<rparr>" "Errno ''unreadable''"]
    fixTaskFileExt_frame [of sampleTask "\<lambda>name w. Inl (Errno ''unreadable'')"
      "''cache/photo''" emptyWorld "\<lparr>mime_type = ''image/jpeg'', Extension = ''.jpg''\<rparr>" "Errno ''unreadable''"]
    fixTaskFileExt_frame [of "sampleTask\<lparr>File := \<lparr>Location = ''photo-1'', FileSize = 0, FileName = ''dir.d/photo.png''\<rparr>\<rparr>"
      "\<lambda>name w. Inr \<lparr>mime_type = ''image/jpeg'', Extension = ''.jpg''\<rparr>"
      "''cache/photo''" emptyWorld "\<lparr>mime_type = ''image/jpeg'', Extension = ''.jpg''\<rparr>" "Errno ''unreadable''"]
  by (simp add: sampleTask_def Task_FileName_def path_Ext_def)

section \<open>Results on loading the configuration\<close>

lemma saveLoop_gives_up:
  "saveLoop cfg task p i st w = (Some e, st', w') \<Longrightarrow>
     i \<le> Retry cfg \<and> length (calls st') = length (calls st) + nat (Retry cfg - i) + 1"
proof (induction cfg task p i st w rule: saveLoop.induct)
  case (1 cfg task p i st w)
  have le: "i \<le> Retry cfg"
    using "1.prems" by (subst (asm) saveLoop.simps) (simp split: if_splits)
  obtain err where err: "responses st (length (calls st)) = Some err"
    using "1.prems" le by (subst (asm) saveLoop.simps) (auto simp add: Save_def split: option.splits)
  show ?case
  proof (cases "i = Retry cfg")
    case True
    then show ?thesis
      using "1.prems" err by (subst (asm) saveLoop.simps) (auto simp add: Save_def)
  next
    case False
    define st1 where "st1 = st\<lparr>calls := calls st @ [(p, StoragePath task)]\<rparr>"
    have sv: "Save st p (StoragePath task) = (Some err, st1)"
      using err by (simp add: Save_def st1_def)
    have rec: "saveLoop cfg task p (i + 1) st1
                 (logger (Errorf ''Failed to save file: %s, retrying...'' err) w) = (Some e, st', w')"
      using "1.prems" le False sv by (subst (asm) saveLoop.simps) simp
    have "i + 1 \<le> Retry cfg \<and> length (calls st') = length (calls st1) + nat (Retry cfg - (i + 1)) + 1"
      using "1.IH" [OF le sv [symmetric] refl False rec] .
    then show ?thesis
      using le False by (simp add: st1_def nat_diff_distrib)
  qed
qed

lemma Init_accepts:
  "Init env = (Returned None, g) \<Longrightarrow> \<exists>c. g = Some c \<and> 1 \<le> Workers c \<and> 1 \<le> Retry c"
  by (auto simp add: Init_def Let_def
      split: write_config_result.splits option.splits sum.splits if_splits)

lemma Init_rejects:
  "Init env = (out, Some c) \<Longrightarrow> Workers c < 1 \<or> Retry c < 1 \<Longrightarrow> \<exists>e. out = Returned (Some e)"
  by (auto simp add: Init_def Let_def
      split: write_config_result.splits option.splits sum.splits if_splits)

lemma Init_rejects_loaded:
  assumes "ReadInConfig env = None" and "Unmarshal env = Inr cfg0"
    and "\<forall>c. Workers (transformDeprecatedStorageConfig env c) = Workers c \<and>
             Retry (transformDeprecatedStorageConfig env c) = Retry c"
    and "Workers cfg0 < 1 \<or> Retry cfg0 < 1"
  shows "\<exists>e. fst (Init env) = Returned (Some e)"
  using assms
  by (auto simp add: Init_def Let_def
      split: write_config_result.splits option.splits sum.splits if_splits)


text \<open>
  Claim C9. \<open>Init\<close> returns an error whenever the configuration it leaves in \<open>Cfg\<close> has
  a worker count or a retry limit below 1, and whenever the configuration it read has
  (the transformation of the deprecated storage section leaving both numbers alone). So
  when \<open>Init\<close> returns nil, \<open>Cfg\<close> is set with at least one worker and a retry limit of
  at least 1, and with that configuration \<open>saveFileWithRetry\<close> has called the backend's
  \<open>Save\<close> at least twice whenever it returns an error.
\<close>

theorem Init_enforces_retry:
  "(Init env = (out, Some c) \<and> (Workers c < 1 \<or> Retry c < 1) \<longrightarrow> (\<exists>e. out = Returned (Some e))) \<and>
   (ReadInConfig env = None \<and> Unmarshal env = Inr cfg0 \<and>
    (\<forall>c. Workers (transformDeprecatedStorageConfig env c) = Workers c \<and>
         Retry (transformDeprecatedStorageConfig env c) = Retry c) \<and>
    (Workers cfg0 < 1 \<or> Retry cfg0 < 1) \<longrightarrow> (\<exists>e. fst (Init env) = Returned (Some e))) \<and>
   (Init env = (Returned None, g) \<longrightarrow>
      (\<exists>c. g = Some c \<and> 1 \<le> Workers c \<and> 1 \<le> Retry c \<and>
           (\<forall>task st p w e st' w'.
              saveFileWithRetry c task st p w = (Some e, st', w') \<longrightarrow>
              length (calls st) + 2 \<le> length (calls st'))))"
proof (intro conjI impI)
  assume "Init env = (out, Some c) \<and> (Workers c < 1 \<or> Retry c < 1)"
  then show "\<exists>e. out = Returned (Some e)"
    using Init_rejects [of env out c] by blast
next
  assume "ReadInConfig env = None \<and> Unmarshal env = Inr cfg0 \<and>
    (\<forall>c. Workers (transformDeprecatedStorageConfig env c) = Workers c \<and>
         Retry (transformDeprecatedStorageConfig env c) = Retry c) \<and>
    (Workers cfg0 < 1 \<or> Retry cfg0 < 1)"
  then show "\<exists>e. fst (Init env) = Returned (Some e)"
    using Init_rejects_loaded [of env cfg0] by blast
next
  assume ok: "Init env = (Returned None, g)"
  then obtain c where c: "g = Some c" "1 \<le> Workers c" "1 \<le> Retry c"
    using Init_accepts by blast
  have "length (calls st) + 2 \<le> length (calls st')"
    if "saveFileWithRetry c task st p w = (Some e, st', w')" for task st p w e st' w'
  proof -
    have "length (calls st') = length (calls st) + nat (Retry c - 0) + 1"
      using saveLoop_gives_up [of c task p 0 st w e st' w'] that
      by (simp add: saveFileWithRetry_def)
    then show ?thesis using c(3) by simp
  qed
  then show "\<exists>c. g = Some c \<and> 1 \<le> Workers c \<and> 1 \<le> Retry c \<and>
           (\<forall>task st p w e st' w'.
              saveFileWithRetry c task st p w = (Some e, st', w') \<longrightarrow>
              length (calls st) + 2 \<le> length (calls st'))"
    using c by blast
qed

text \<open>
  A retry limit of 0 and a worker count of 0 are rejected; a retry limit of 1 is accepted
  and gives up after two failed calls.
\<close>

theorem Init_enforces_retry_witness:
  "fst (Init (sampleEnv 3 0)) = Returned (Some (Errno ''workers and retry must be greater than 0'')) \<and>
   fst (Init (sampleEnv 0 3)) = Returned (Some (Errno ''workers and retry must be greater than 0'')) \<and>
   fst (Init (sampleEnv 3 1)) = Returned None \<and>
   (\<exists>c. snd (Init (sampleEnv 3 1)) = Some c \<and> Retry c = 1 \<and>
        fst (saveFileWithRetry c sampleTask (failingStorage [Errno ''busy'', Errno ''quota''])
               ''cache/photo'' emptyWorld) = Some (Wrap ''failed to save file'' (Errno ''quota'')) \<and>
        length (calls (fst (snd (saveFileWithRetry c sampleTask (failingStorage [Errno ''busy'', Errno ''quota''])
               ''cache/photo'' emptyWorld)))) = 2)"
  using Init_enforces_retry [of "sampleEnv 3 0" "fst (Init (sampleEnv 3 0))"
      "(sampleConfig 0 3600)\<lparr>Workers := 3, Storages := [\<lparr>GetName = ''local'', GetType = ''local''\<rparr>]\<rparr>"
      "(sampleConfig 0 3600)\<lparr>Workers := 3\<rparr>" "snd (Init (sampleEnv 3 0))"]
    Init_enforces_retry [of "sampleEnv 0 3" "fst (Init (sampleEnv 0 3))"
      "(sampleConfig 3 3600)\<lparr>Workers := 0, Storages := [\<lparr>GetName = ''local'', GetType = ''local''\<rparr>]\<rparr>"
      "(sampleConfig 3 3600)\<lparr>Workers := 0\<rparr>" "snd (Init (sampleEnv 0 3))"]
    Init_enforces_retry [of "sampleEnv 3 1" "fst (Init (sampleEnv 3 1))"
      "(sampleConfig 1 3600)\<lparr>Workers := 3, Storages := [\<lparr>GetName = ''local'', GetType = ''local''\<rparr>]\<rparr>"
      "(sampleConfig 1 3600)\<lparr>Workers := 3\<rparr>" "snd (Init (sampleEnv 3 1))"]
  by (simp add: Init_def sampleEnv_def sampleConfig_def saveFileWithRetry_def saveLoop.simps Save_def
      failingStorage_def sampleTask_def)

section \<open>Results on the progress callback\<close>

lemma go_rem_zero_iff: "d \<noteq> 0 \<Longrightarrow> go_rem p d = 0 \<longleftrightarrow> d dvd p"
proof -
  assume d: "d \<noteq> 0"
  have m: "x - y * (x div y) = x mod y" for x y :: int
    by (simp add: minus_mult_div_eq_mod)
  consider "0 \<le> p" "0 < d" | "p < 0" "d < 0" | "0 \<le> p" "d < 0" | "p < 0" "0 < d"
    using d by linarith
  then show ?thesis
  proof cases
    case 1
    then have "go_rem p d = p mod d"
      using m [of p d] by (simp add: go_rem_def go_quot_def)
    then show ?thesis by (simp add: mod_eq_0_iff_dvd)
  next
    case 2
    then have "go_rem p d = p mod d"
      using m [of p d] by (simp add: go_rem_def go_quot_def)
    then show ?thesis by (simp add: mod_eq_0_iff_dvd)
  next
    case 3
    then have "go_rem p d = p mod (- d)"
      using m [of p "- d"] by (simp add: go_rem_def go_quot_def)
    then show ?thesis by (simp add: mod_eq_0_iff_dvd)
  next
    case 4
    then have "go_rem p d = - ((- p) mod d)"
      using m [of "- p" d] by (simp add: go_rem_def go_quot_def)
    then show ?thesis by (simp add: mod_eq_0_iff_dvd)
  qed
qed

lemma callAll_small_file:
  "FileSize (File task) < 1024 * 1024 * 50 \<Longrightarrow>
   callAll (buildProgressCallback impl task updateCount) steps ctx = Returns ctx"
  by (induction steps arbitrary: ctx) (auto simp add: buildProgressCallback_def)

text \<open>Nothing read is 0 percent.\<close>

lemma roundEven_lower: "0 < d \<Longrightarrow> n div d \<le> roundEven n d"
  by (simp add: roundEven_def Let_def)

lemma round53_of_int_pos:
  assumes "0 < n"
  shows "0 < fst (round53 n 1 s)"
proof -
  have b: "2 ^ nat (bitlen n - 1) \<le> n"
    using bitlen_bounds [OF assms] by simp
  have b1: "1 \<le> bitlen n"
    using assms bitlen_eq_zero_iff [of n] bitlen_nonneg [of n] by linarith
  have l: "floorLog2 n 1 = bitlen n - 1"
    using b b1 by (simp add: floorLog2_def Let_def compute_bitlen [of 1])
  show ?thesis
  proof (cases "bitlen n - 1 \<le> 52")
    case True
    then show ?thesis
      using assms l by (simp add: round53_def Let_def roundEven_def)
  next
    case False
    define j where "j = nat (bitlen n - 1 - 52)"
    have p: "(2::int) ^ j \<le> 2 ^ nat (bitlen n - 1)"
      by (rule power_increasing) (simp_all add: j_def)
    have q: "(2::int) ^ j \<le> n" using p b by linarith
    have "(2::int) ^ j div 2 ^ j \<le> n div 2 ^ j"
      using q by (intro zdiv_mono1) simp_all
    then have "1 \<le> n div 2 ^ j"
      by simp
    then have "1 \<le> roundEven n (2 ^ j)"
      using roundEven_lower [of "2 ^ j" n] by simp
    then show ?thesis
      using False l by (simp add: round53_def Let_def j_def)
  qed
qed

lemma float64_of_int_nonzero:
  assumes "x \<noteq> 0"
  shows "fst (float64_of_int x) \<noteq> 0"
proof -
  have "0 < fst (round53 \<bar>x\<bar> 1 0)"
    using assms by (intro round53_of_int_pos) simp
  then show ?thesis
    using assms by (auto simp add: float64_of_int_def nearest_def split: prod.splits)
qed

lemma progressInt_nothing_read:
  assumes "contentLength \<noteq> 0"
  shows "progressInt impl 0 contentLength = 0"
proof -
  obtain m e where c: "float64_of_int contentLength = (m, e)"
    by (cases "float64_of_int contentLength")
  have m: "m \<noteq> 0"
    using float64_of_int_nonzero [OF assms] c by simp
  obtain m' e' where h: "float64_of_int 100 = (m', e')"
    by (cases "float64_of_int 100")
  have z: "float64_of_int 0 = (0, 0)"
    by (simp add: float64_of_int_def nearest_def)
  have "progressPercent 0 contentLength = Some (0, 0)"
    using m by (simp add: progressPercent_def float64_div_def float64_mul_def nearest_def c h z)
  then show ?thesis
    by (simp add: progressInt_def float64_trunc_def is_int64_def)
qed

text \<open>Everything read is 100 percent.\<close>

lemma round53_same:
  assumes "0 < m"
  shows "round53 m m s = (4503599627370496, s - 52)"
proof -
  have l: "floorLog2 m m = 0"
    by (simp add: floorLog2_def)
  have "roundEven (m * 2 ^ 52) m = 2 ^ 52"
    using assms by (simp add: roundEven_def)
  then show ?thesis
    using l by (simp add: round53_def)
qed

lemma float64_div_same:
  assumes "m \<noteq> 0"
  shows "float64_div (m, e) (m, e) = Some (4503599627370496, - 52)"
  using assms round53_same [of "\<bar>m\<bar>" 0]
  by (simp add: float64_div_def nearest_def)

lemma hundred_percent:
  "float64_trunc (float64_mul (4503599627370496, - 52) (float64_of_int 100)) = 100"
  by code_simp

lemma progressInt_all_read:
  assumes "contentLength \<noteq> 0"
  shows "progressInt impl contentLength contentLength = 100"
proof -
  obtain m e where c: "float64_of_int contentLength = (m, e)"
    by (cases "float64_of_int contentLength")
  have m: "m \<noteq> 0"
    using float64_of_int_nonzero [OF assms] c by simp
  have "progressPercent contentLength contentLength =
          Some (float64_mul (4503599627370496, - 52) (float64_of_int 100))"
    using float64_div_same [OF m, of e] by (simp add: progressPercent_def c)
  then show ?thesis
    by (simp add: progressInt_def hundred_percent is_int64_def)
qed

lemma percent_29_of_2000_MiB:
  "progressInt impl (1024 * 1024 * 580) (1024 * 1024 * 2000) = 28"
proof -
  have "progressPercent (1024 * 1024 * 580) (1024 * 1024 * 2000) = Some (8162774324609023, - 48)"
    by code_simp
  then show ?thesis
    by (simp add: progressInt_def float64_trunc_def is_int64_def)
qed


text \<open>
  Whole percentages of a length of 100, as float64 computes them: 29, 57 and 58 come out
  one lower, every other one comes out exact.
\<close>

lemma percent_of_hundred:
  "filter (\<lambda>bytesRead. progressInt (\<lambda>bytesRead contentLength. 0) bytesRead 100 \<noteq> bytesRead) [0..100] =
     [29, 57, 58]"
  "map (\<lambda>bytesRead. progressInt (\<lambda>bytesRead contentLength. 0) bytesRead 100) [29, 57, 58] =
     [28, 56, 57]"
  by code_simp+

lemma percent_samples:
  "progressPercent 30 600 = Some (5629499534213120, - 50)"
  "progressPercent 42 600 = Some (7881299347898369, - 50)"
  by code_simp+

text \<open>
  Claim C4, amended. For a nonzero update count, the callback edits the progress message
  on a call if and only if the task's declared size is at least 50 MiB, the percentage as
  the code computes it (\<^verbatim>\<open>float64(bytesRead) / float64(contentLength) * 100\<close> in float64
  arithmetic, then cut to an int) is nonzero, and that int is a multiple of
  \<open>100 / updateCount\<close> (Go's quotient; where that quotient is 0 it has no nonzero
  multiple, and the call panics instead). Every call edits that one message or none. For
  a task whose declared size is below 50 MiB, no sequence of calls edits anything, or
  panics, whatever the update count. For a nonzero content length the computed
  percentage is 0 when nothing has been read and 100 when everything has; in between it
  can be below the exact quotient, as the example at 29 percent below shows.
\<close>

theorem progress_emission:
  "(updateCount \<noteq> 0 \<longrightarrow>
      (buildProgressCallback impl task updateCount bytesRead contentLength ctx =
         Returns (ctx @ [\<lparr>edit_chat = ReplyChatID task, edit_ID = ReplyMessageID task,
                          edit_bytesRead = bytesRead, edit_contentLength = contentLength\<rparr>])
       \<longleftrightarrow> 1024 * 1024 * 50 \<le> FileSize (File task) \<and>
           progressInt impl bytesRead contentLength \<noteq> 0 \<and>
           go_quot 100 updateCount dvd progressInt impl bytesRead contentLength)) \<and>
   (buildProgressCallback impl task updateCount bytesRead contentLength ctx =
         Returns (ctx @ [\<lparr>edit_chat = ReplyChatID task, edit_ID = ReplyMessageID task,
                          edit_bytesRead = bytesRead, edit_contentLength = contentLength\<rparr>]) \<or>
    buildProgressCallback impl task updateCount bytesRead contentLength ctx = Returns ctx \<or>
    buildProgressCallback impl task updateCount bytesRead contentLength ctx =
         Panic ''integer divide by zero'') \<and>
   (FileSize (File task) < 1024 * 1024 * 50 \<longrightarrow>
      callAll (buildProgressCallback impl task updateCount) steps ctx = Returns ctx) \<and>
   (contentLength \<noteq> 0 \<longrightarrow>
      progressInt impl 0 contentLength = 0 \<and>
      progressInt impl contentLength contentLength = 100)"
proof (intro conjI impI)
  assume uc: "updateCount \<noteq> 0"
  show "buildProgressCallback impl task updateCount bytesRead contentLength ctx =
         Returns (ctx @ [\<lparr>edit_chat = ReplyChatID task, edit_ID = ReplyMessageID task,
                          edit_bytesRead = bytesRead, edit_contentLength = contentLength\<rparr>])
       \<longleftrightarrow> 1024 * 1024 * 50 \<le> FileSize (File task) \<and>
           progressInt impl bytesRead contentLength \<noteq> 0 \<and>
           go_quot 100 updateCount dvd progressInt impl bytesRead contentLength"
  proof (cases "go_quot 100 updateCount = 0")
    case True
    then show ?thesis
      using uc by (auto simp add: buildProgressCallback_def Let_def)
  next
    case False
    then show ?thesis
      using uc go_rem_zero_iff [OF False, of "progressInt impl bytesRead contentLength"]
      by (auto simp add: buildProgressCallback_def Let_def)
  qed
next
  show "buildProgressCallback impl task updateCount bytesRead contentLength ctx =
         Returns (ctx @ [\<lparr>edit_chat = ReplyChatID task, edit_ID = ReplyMessageID task,
                          edit_bytesRead = bytesRead, edit_contentLength = contentLength\<rparr>]) \<or>
    buildProgressCallback impl task updateCount bytesRead contentLength ctx = Returns ctx \<or>
    buildProgressCallback impl task updateCount bytesRead contentLength ctx =
         Panic ''integer divide by zero''"
    by (simp add: buildProgressCallback_def Let_def)
next
  assume "FileSize (File task) < 1024 * 1024 * 50"
  then show "callAll (buildProgressCallback impl task updateCount) steps ctx = Returns ctx"
    by (rule callAll_small_file)
next
  assume "contentLength \<noteq> 0"
  then show "progressInt impl 0 contentLength = 0"
    by (rule progressInt_nothing_read)
next
  assume "contentLength \<noteq> 0"
  then show "progressInt impl contentLength contentLength = 100"
    by (rule progressInt_all_read)
qed

text \<open>
  A file of 600 MiB (20 updates, one every 5 percent): 5 percent is reported, 7 percent is
  not; a file of 10 MiB reports nothing.
\<close>

theorem progress_emission_witness:
  "buildProgressCallback (\<lambda>bytesRead contentLength. 0)
      (sampleTask\<lparr>File := \<lparr>Location = ''video-1'', FileSize = 1024 * 1024 * 600, FileName = ''video.mp4''\<rparr>\<rparr>)
      (getProgressUpdateCount (1024 * 1024 * 600)) 30 600 [] =
     Returns [\<lparr>edit_chat = 7, edit_ID = 42, edit_bytesRead = 30, edit_contentLength = 600\<rparr>] \<and>
   buildProgressCallback (\<lambda>bytesRead contentLength. 0)
      (sampleTask\<lparr>File := \<lparr>Location = ''video-1'', FileSize = 1024 * 1024 * 600, FileName = ''video.mp4''\<rparr>\<rparr>)
      (getProgressUpdateCount (1024 * 1024 * 600)) 42 600 [] = Returns [] \<and>
   callAll (buildProgressCallback (\<lambda>bytesRead contentLength. 0)
      (sampleTask\<lparr>File := \<lparr>Location = ''photo-1'', FileSize = 1024 * 1024 * 10, FileName = ''photo''\<rparr>\<rparr>) 5)
      [(2, 10), (4, 10), (10, 10)] [] = Returns [] \<and>
   progressInt (\<lambda>bytesRead contentLength. 0) 0 600 = 0 \<and>
   progressInt (\<lambda>bytesRead contentLength. 0) 600 600 = 100"
  using progress_emission [of "getProgressUpdateCount (1024 * 1024 * 600)"
      "\<lambda>bytesRead contentLength. 0"
      "sampleTask\<lparr>File := \<lparr>Location = ''video-1'', FileSize = 1024 * 1024 * 600, FileName = ''video.mp4''\<rparr>\<rparr>"
      30 600 "[]" "[]"]
    progress_emission [of "getProgressUpdateCount (1024 * 1024 * 600)"
      "\<lambda>bytesRead contentLength. 0"
      "sampleTask\<lparr>File := \<lparr>Location = ''video-1'', FileSize = 1024 * 1024 * 600, FileName = ''video.mp4''\<rparr>\<rparr>"
      42 600 "[]" "[]"]
    progress_emission [of 5
      "\<lambda>bytesRead contentLength. 0"
      "sampleTask\<lparr>File := \<lparr>Location = ''photo-1'', FileSize = 1024 * 1024 * 10, FileName = ''photo''\<rparr>\<rparr>"
      2 10 "[]" "[(2, 10), (4, 10), (10, 10)]"]
  by (simp add: getProgressUpdateCount_def go_quot_def sampleTask_def buildProgressCallback_def
      go_rem_def progressInt_def percent_samples float64_trunc_def is_int64_def)

text \<open>
  Claim C4, as stated, fails: the percentage is computed in float64, not exactly. With
  608174080 of 2097152000 bytes read, exactly 29 percent of a file of 2000 MiB, the
  quotient is rounded to the float64 next below 0.29, its product with 100 to the float64
  next below 29, and the conversion cuts that to 28. The file gets 50 updates, one every
  2 percent: 28 is a multiple of 2 and the message is edited, although the exact
  percentage, 29, is not.
\<close>

theorem emits_at_exactly_29_percent:
  "buildProgressCallback (\<lambda>bytesRead contentLength. 0)
      (sampleTask\<lparr>File := \<lparr>Location = ''video-1'', FileSize = 1024 * 1024 * 2000, FileName = ''video.mp4''\<rparr>\<rparr>)
      (getProgressUpdateCount (1024 * 1024 * 2000)) (1024 * 1024 * 580) (1024 * 1024 * 2000) [] =
     Returns [\<lparr>edit_chat = 7, edit_ID = 42, edit_bytesRead = 1024 * 1024 * 580,
               edit_contentLength = 1024 * 1024 * 2000\<rparr>] \<and>
   progressInt (\<lambda>bytesRead contentLength. 0) (1024 * 1024 * 580) (1024 * 1024 * 2000) = 28 \<and>
   (1024 * 1024 * 580 * 100) div (1024 * 1024 * 2000) = (29 :: int) \<and>
   (1024 * 1024 * 580 * 100) mod (1024 * 1024 * 2000) = (0 :: int) \<and>
   go_quot 100 (getProgressUpdateCount (1024 * 1024 * 2000)) = 2 \<and>
   \<not> (2 :: int) dvd 29"
  using percent_29_of_2000_MiB [of "\<lambda>bytesRead contentLength. 0"]
  by (simp add: buildProgressCallback_def getProgressUpdateCount_def go_quot_def go_rem_def
      sampleTask_def)

end
